theory Spec2Isabelle
  imports Complex_Main
begin

section \<open>Python string and list primitives used by the scripts\<close>

text \<open>
  \<^verbatim>\<open>s.split(sep)\<close> for a one-character separator: the pieces between the occurrences
  of the separator, empty pieces included; a string without the separator (the empty
  string too) gives the one-element list holding it.
\<close>

fun split_py :: "char \<Rightarrow> string \<Rightarrow> string list" where
  "split_py c [] = [[]]"
| "split_py c (x # xs) =
     (if x = c then [] # split_py c xs
      else (case split_py c xs of
              [] \<Rightarrow> [[x]]
            | w # ws \<Rightarrow> (x # w) # ws))"

text \<open>\<^verbatim>\<open>sep.join(pieces)\<close>.\<close>

fun join_py :: "string \<Rightarrow> string list \<Rightarrow> string" where
  "join_py sep [] = []"
| "join_py sep [w] = w"
| "join_py sep (w # v # ws) = w @ sep @ join_py sep (v # ws)"

text \<open>
  The slice \<^verbatim>\<open>xs[i:]\<close>: a negative start counts from the end and is clamped at the
  beginning of the list, a start past the end gives the empty list.
\<close>

definition slice_from :: "int \<Rightarrow> 'a list \<Rightarrow> 'a list" where
  "slice_from i xs =
     (let n = int (length xs);
          start = (if i < 0 then max 0 (n + i) else min i n)
      in drop (nat start) xs)"

text \<open>\<^verbatim>\<open>str(n)\<close> for an integer: decimal digits, with a minus sign when negative.\<close>

fun str_nat :: "nat \<Rightarrow> string" where
  "str_nat n =
     (if n < 10 then [''0123456789'' ! n]
      else str_nat (n div 10) @ [''0123456789'' ! (n mod 10)])"

definition str_int :: "int \<Rightarrow> string" where
  "str_int i = (if i < 0 then CHR ''-'' # str_nat (nat (- i)) else str_nat (nat i))"

section \<open>The frontend publisher: \<^verbatim>\<open>frontend_deploy.py\<close>\<close>

subsection \<open>Values and the outside world\<close>

text \<open>
  A value of the configuration mapping as \<^verbatim>\<open>yaml.safe_load\<close> builds it. Null, booleans,
  integers and strings are kept as they are; a value of any other type (a float, a
  sequence, a nested mapping, a set, a timestamp) is kept as \<open>YOther\<close> with the two
  things the script can observe of it: its truth value and its \<^verbatim>\<open>str()\<close> text.
\<close>

datatype yaml =
    YNull
  | YBool bool
  | YInt int
  | YStr string
  | YOther bool string

text \<open>Python truthiness, as tested by \<^verbatim>\<open>if not bucket_name\<close>.\<close>

fun truthy :: "yaml \<Rightarrow> bool" where
  "truthy YNull = False"
| "truthy (YBool b) = b"
| "truthy (YInt i) = (i \<noteq> 0)"
| "truthy (YStr s) = (s \<noteq> [])"
| "truthy (YOther t txt) = t"

text \<open>The text that \<^verbatim>\<open>'{}'.format(v)\<close> inserts.\<close>

fun py_str :: "yaml \<Rightarrow> string" where
  "py_str YNull = ''None''"
| "py_str (YBool b) = (if b then ''True'' else ''False'')"
| "py_str (YInt i) = str_int i"
| "py_str (YStr s) = s"
| "py_str (YOther t txt) = txt"

text \<open>
  What \<^verbatim>\<open>yaml.safe_load\<close> returns for the whole file: a mapping, on which
  \<^verbatim>\<open>.get\<close> works, or a value of another type (a file holding a scalar or a sequence,
  or an empty file, which loads as \<^verbatim>\<open>None\<close>).
\<close>

datatype document = Mapping "string \<rightharpoonup> yaml" | Not_mapping

text \<open>
  Lines 65 to 69, seen from the script: \<^verbatim>\<open>io.open\<close> or the read raises
  \<^verbatim>\<open>IOError\<close>, the YAML parser raises its own error, or a document is loaded.
\<close>

datatype config_read = Open_failed | Parse_failed | Loaded document

datatype 'a cf_response = CloudFlareAPIError | Response 'a

text \<open>The outside world, as the functions the script calls into.\<close>

record world =
  read_config :: "string \<Rightarrow> config_read"
  run_sync :: "string \<Rightarrow> int"
  zones_get :: "string \<Rightarrow> (string \<rightharpoonup> string) list cf_response"
  purge_cache_post :: "string \<Rightarrow> string list \<Rightarrow> unit cf_response"

text \<open>
  What a run does, in order: the log lines it writes, the shell command it starts, and
  its calls to the CDN client (construction, zone lookup by name, purge of a host list
  in a zone).
\<close>

datatype event =
    Log string string
  | Sync string
  | Cf_client
  | Cf_zones_get string
  | Cf_purge string "string list"

fun is_remote :: "event \<Rightarrow> bool" where
  "is_remote (Log label message) = False"
| "is_remote e = True"

fun is_cdn :: "event \<Rightarrow> bool" where
  "is_cdn (Log label message) = False"
| "is_cdn (Sync cmd) = False"
| "is_cdn e = True"

text \<open>
  How a run ends: the function returns, \<^verbatim>\<open>sys.exit(code)\<close> is called, or an exception
  that nothing catches leaves the function.
\<close>

datatype exn = YAMLError | AttributeError

datatype outcome = Returned | Exit int | Uncaught exn

text \<open>
  The status of the process: click's runner exits with 0 once the command function has
  returned, and the interpreter exits with 1 on an exception that nothing catches.
\<close>

fun exit_status :: "outcome \<Rightarrow> int" where
  "exit_status Returned = 0"
| "exit_status (Exit code) = code"
| "exit_status (Uncaught e) = 1"

subsection \<open>The logging helpers\<close>

text \<open>
  Modelled from the spec: \<^verbatim>\<open>tubular/scripts/helpers.py\<close> (\<^verbatim>\<open>_log\<close> and \<^verbatim>\<open>_fail\<close>) is not
  among the sources. The spec says of every fatal condition that it produces "a single
  human-readable log line naming the short label of the originating script and the
  offending value, followed by process termination with exit code 1": \<open>helpers_log\<close>
  writes one line that carries the label and the message, \<open>helpers_fail\<close> writes that line
  and ends the process with the code it is given.
\<close>

definition helpers_log :: "string \<Rightarrow> string \<Rightarrow> event list \<Rightarrow> event list" where
  "helpers_log kind message evs = evs @ [Log kind message]"

definition helpers_fail :: "string \<Rightarrow> int \<Rightarrow> string \<Rightarrow> event list \<Rightarrow> outcome \<times> event list" where
  "helpers_fail kind code message evs = (Exit code, helpers_log kind message evs)"

definition SCRIPT_SHORTNAME :: string where
  "SCRIPT_SHORTNAME = ''Deploy frontend''"

definition LOG :: "string \<Rightarrow> event list \<Rightarrow> event list" where
  "LOG = helpers_log SCRIPT_SHORTNAME"

definition FAIL :: "int \<Rightarrow> string \<Rightarrow> event list \<Rightarrow> outcome \<times> event list" where
  "FAIL = helpers_fail SCRIPT_SHORTNAME"

subsection \<open>The command\<close>

text \<open>\<^verbatim>\<open>not x\<close> for an option value of click: absent (\<^verbatim>\<open>None\<close>) or the empty string.\<close>

fun not_given :: "string option \<Rightarrow> bool" where
  "not_given None = True"
| "not_given (Some s) = (s = [])"

text \<open>
  Line 93: \<^verbatim>\<open>zone_name = '.'.join(bucket_name.split('.')[-2:])\<close>.
\<close>

definition zone_name :: "string \<Rightarrow> string" where
  "zone_name bucket_name = join_py ''.'' (slice_from (- 2) (split_py CHR ''.'' bucket_name))"

text \<open>
  Lines 85 to 103, after a successful sync. A bucket name that is not a string has no
  \<^verbatim>\<open>split\<close>: line 93 raises outside the \<^verbatim>\<open>try\<close>. Inside it, \<^verbatim>\<open>[0]\<close> on an empty
  zone list raises \<^verbatim>\<open>IndexError\<close> and \<^verbatim>\<open>['id']\<close> on a zone without that key raises
  \<^verbatim>\<open>KeyError\<close>; both are caught with the API error.
\<close>

definition purge_and_finish ::
    "world \<Rightarrow> string \<Rightarrow> yaml \<Rightarrow> bool \<Rightarrow> event list \<Rightarrow> outcome \<times> event list" where
  "purge_and_finish w app_name bucket_name purge_cache evs =
     (let deployed = ''Frontend application '' @ app_name @ '' successfully deployed to ''
                   @ py_str bucket_name @ ''.'';
          failed = ''Failed to purge the Cloudflare cache for hostname ''
                   @ py_str bucket_name @ ''.''
      in
      if purge_cache then
        (case bucket_name of
           YStr name \<Rightarrow>
             (let zone = zone_name name;
                  hosts = [name];
                  evs1 = evs @ [Cf_client, Cf_zones_get zone]
              in
              case zones_get w zone of
                CloudFlareAPIError \<Rightarrow> FAIL 1 failed evs1
              | Response zones \<Rightarrow>
                  (case zones of
                     [] \<Rightarrow> FAIL 1 failed evs1
                   | z # zs \<Rightarrow>
                       (case z ''id'' of
                          None \<Rightarrow> FAIL 1 failed evs1
                        | Some zone_id \<Rightarrow>
                            (let evs2 = evs1 @ [Cf_purge zone_id hosts] in
                             case purge_cache_post w zone_id hosts of
                               CloudFlareAPIError \<Rightarrow> FAIL 1 failed evs2
                             | Response u \<Rightarrow>
                                 (Returned,
                                  LOG deployed
                                    (LOG (''Successfully purged Cloudflare cache for hostname ''
                                            @ name @ ''.'') evs2))))))
         | _ \<Rightarrow> (Uncaught AttributeError, evs))
      else (Returned, LOG deployed evs))"

text \<open>
  Line 75, \<^verbatim>\<open>'s3://{}'.format(bucket_name)\<close>, and the command line of lines 77 to 80,
  \<^verbatim>\<open>' '.join(['aws s3 sync', app_dist, bucket_uri, '--delete'])\<close>.
\<close>

definition bucket_uri :: "yaml \<Rightarrow> string" where
  "bucket_uri bucket_name = ''s3://'' @ py_str bucket_name"

definition sync_command :: "string \<Rightarrow> string \<Rightarrow> string" where
  "sync_command app_dist uri = join_py '' '' [''aws s3 sync'', app_dist, uri, ''--delete'']"

text \<open>Lines 58 to 83, then the block above.\<close>

definition frontend_deploy ::
    "world \<Rightarrow> string option \<Rightarrow> string option \<Rightarrow> string option \<Rightarrow> bool
       \<Rightarrow> outcome \<times> event list" where
  "frontend_deploy w env_config_file app_name app_dist purge_cache =
     (if not_given env_config_file then
        FAIL 1 ''Environment config file was not specified.'' []
      else if not_given app_name then
        FAIL 1 ''Frontend application name was not specified.'' []
      else if not_given app_dist then
        FAIL 1 ''Frontend application dist path was not specified.'' []
      else
        (case read_config w (the env_config_file) of
           Open_failed \<Rightarrow>
             FAIL 1 (''Environment config file '' @ the env_config_file
                       @ '' could not be opened.'') []
         | Parse_failed \<Rightarrow> (Uncaught YAMLError, [])
         | Loaded Not_mapping \<Rightarrow> (Uncaught AttributeError, [])
         | Loaded (Mapping env_vars) \<Rightarrow>
             (let bucket_name =
                    (case env_vars ''S3_BUCKET_NAME'' of None \<Rightarrow> YNull | Some v \<Rightarrow> v)
              in
              if \<not> truthy bucket_name then
                FAIL 1 (''No S3 bucket name configured for '' @ the app_name @ ''.'') []
              else
                (let uri = bucket_uri bucket_name;
                     command = sync_command (the app_dist) uri;
                     return_code = run_sync w command
                 in
                 if return_code \<noteq> 0 then
                   FAIL 1 (''Could not sync app '' @ the app_name @ '' with S3 bucket ''
                             @ uri @ ''.'') [Sync command]
                 else purge_and_finish w (the app_name) bucket_name purge_cache [Sync command]))))"


text \<open>The names passed to the zone lookup during a run.\<close>

fun looked_up :: "event \<Rightarrow> string option" where
  "looked_up (Cf_zones_get zone) = Some zone"
| "looked_up e = None"

section \<open>The CI trigger: \<^verbatim>\<open>jenkins_trigger_build.py\<close>\<close>

subsection \<open>Statuses\<close>

text \<open>
  The status names imported from \<^verbatim>\<open>jenkinsapi.constants\<close> (line 12). The library is not
  part of the repository; the values are the library's, and the spec names the first one
  (a build "reaches status SUCCESS").
\<close>

definition STATUS_SUCCESS :: string where "STATUS_SUCCESS = ''SUCCESS''"
definition STATUS_FAIL :: string where "STATUS_FAIL = ''FAIL''"
definition STATUS_ERROR :: string where "STATUS_ERROR = ''ERROR''"
definition STATUS_ABORTED :: string where "STATUS_ABORTED = ''ABORTED''"
definition STATUS_REGRESSION :: string where "STATUS_REGRESSION = ''REGRESSION''"

text \<open>Lines 79 to 85: the values \<^verbatim>\<open>--expected-status\<close> accepts.\<close>

definition expected_status_choices :: "string list" where
  "expected_status_choices =
     [STATUS_FAIL, STATUS_ERROR, STATUS_ABORTED, STATUS_REGRESSION, STATUS_SUCCESS]"

text \<open>
  What \<^verbatim>\<open>jenkins.trigger_build\<close> hands back to the script: the status of the build, or
  the timeout, which the spec keeps apart from every status ("signals a timeout condition
  distinctly from a terminal-status result").
\<close>

datatype build_result = Status string | Timed_out

subsection \<open>The command line\<close>

text \<open>
  The options as typed: \<open>None\<close> is an option that was not given. The timeout is a
  number of seconds; the rationals stand for click's float.
\<close>

record trigger_cli =
  opt_url :: "string option"
  opt_user_name :: "string option"
  opt_user_token :: "string option"
  opt_job :: "string option"
  opt_token :: "string option"
  opt_cause :: "string option"
  opt_param :: "(string \<times> string) list"
  opt_timeout :: "rat option"
  opt_expected_status :: "string option"

text \<open>The arguments click passes to the command function.\<close>

record trigger_args =
  url :: string
  user_name :: string
  user_token :: string
  job :: string
  token :: string
  cause :: "string option"
  param :: "(string \<times> string) list"
  timeout :: rat
  expected_status :: string

text \<open>
  click's handling of the declarations of lines 20 to 86. An option that was not given
  takes the value of its \<^verbatim>\<open>envvar\<close>, then its \<^verbatim>\<open>default\<close>; a \<^verbatim>\<open>required\<close> option
  still without a value, or an expected status outside the choices, is a usage error:
  click prints it and exits with status 2 (\<^verbatim>\<open>UsageError.exit_code\<close>) without calling the
  command function. The environment is given as the value click resolves for a variable.
\<close>

datatype 'a click = Usage_error string | Parsed 'a

definition click_usage_exit_code :: int where
  "click_usage_exit_code = 2"

fun or_else :: "'a option \<Rightarrow> 'a option \<Rightarrow> 'a option" where
  "or_else (Some x) y = Some x"
| "or_else None y = y"

definition parse_trigger_cli :: "trigger_cli \<Rightarrow> (string \<rightharpoonup> string) \<Rightarrow> trigger_args click" where
  "parse_trigger_cli c environ =
     (case or_else (opt_url c) (Some ''https://test-jenkins.testeng.edx.org'') of
        None \<Rightarrow> Usage_error ''url''
      | Some url_v \<Rightarrow>
     (case opt_user_name c of
        None \<Rightarrow> Usage_error ''user_name''
      | Some user_name_v \<Rightarrow>
     (case or_else (opt_user_token c) (environ ''JENKINS_USER_TOKEN'') of
        None \<Rightarrow> Usage_error ''user_token''
      | Some user_token_v \<Rightarrow>
     (case opt_job c of
        None \<Rightarrow> Usage_error ''job''
      | Some job_v \<Rightarrow>
     (case or_else (opt_token c) (environ ''JENKINS_JOB_TOKEN'') of
        None \<Rightarrow> Usage_error ''token''
      | Some token_v \<Rightarrow>
          (let timeout_v = (case opt_timeout c of None \<Rightarrow> 30 * 60 | Some seconds \<Rightarrow> seconds);
               expected_v = (case opt_expected_status c of None \<Rightarrow> STATUS_SUCCESS | Some e \<Rightarrow> e)
           in
           if expected_v \<in> set expected_status_choices then
             Parsed \<lparr>url = url_v, user_name = user_name_v, user_token = user_token_v,
                     job = job_v, token = token_v, cause = opt_cause c, param = opt_param c,
                     timeout = timeout_v, expected_status = expected_v\<rparr>
           else Usage_error ''expected_status''))))))"

subsection \<open>The command\<close>

text \<open>
  Lines 87 to 90. \<^verbatim>\<open>tubular/jenkins.py\<close> is not among the sources, so
  \<^verbatim>\<open>jenkins.trigger_build\<close> is a parameter: it fails (\<open>Inl\<close>, an exception that the
  command does not catch) or returns a result, which line 90 compares with the expected
  status.
\<close>

definition trigger ::
    "(string \<Rightarrow> string \<Rightarrow> string \<Rightarrow> string \<Rightarrow> string \<Rightarrow> string option
        \<Rightarrow> (string \<times> string) list \<Rightarrow> rat \<Rightarrow> 'e + build_result)
     \<Rightarrow> string \<Rightarrow> string \<Rightarrow> string \<Rightarrow> string \<Rightarrow> string \<Rightarrow> string option
        \<Rightarrow> (string \<times> string) list \<Rightarrow> rat \<Rightarrow> string \<Rightarrow> 'e + bool" where
  "trigger trigger_build url_v user_name_v user_token_v job_v token_v cause_v param_v timeout_v
       expected_v =
     (case trigger_build url_v user_name_v user_token_v job_v token_v cause_v param_v timeout_v of
        Inl e \<Rightarrow> Inl e
      | Inr status \<Rightarrow> Inr (status = Status expected_v))"

text \<open>
  Line 95, \<^verbatim>\<open>trigger()\<close>: click parses the command line and, unless that is a usage
  error, calls the command function.
\<close>

datatype 'e script_run = Usage_exit int | Called "'e + bool"

definition trigger_main ::
    "(string \<Rightarrow> string \<Rightarrow> string \<Rightarrow> string \<Rightarrow> string \<Rightarrow> string option
        \<Rightarrow> (string \<times> string) list \<Rightarrow> rat \<Rightarrow> 'e + build_result)
     \<Rightarrow> trigger_cli \<Rightarrow> (string \<rightharpoonup> string) \<Rightarrow> 'e script_run" where
  "trigger_main trigger_build c environ =
     (case parse_trigger_cli c environ of
        Usage_error name \<Rightarrow> Usage_exit click_usage_exit_code
      | Parsed a \<Rightarrow>
          Called (trigger trigger_build (url a) (user_name a) (user_token a) (job a) (token a)
                    (cause a) (param a) (timeout a) (expected_status a)))"

subsection \<open>Triggering and polling\<close>

text \<open>
  Modelled from the spec: \<^verbatim>\<open>tubular/jenkins.py\<close> (\<^verbatim>\<open>trigger_build\<close>) is not among the
  sources. The spec, section 4.2: "submit a job-trigger request carrying a job name, an
  authorization token, optional free-form cause text, and an ordered list of key/value
  build parameters. After submission, poll the CI server until the triggered build reaches
  one of a fixed set of terminal statuses (success, failure, error, aborted, regression)
  or until an elapsed-time budget is exceeded. Returns the observed terminal status, or
  signals a timeout condition distinctly from a terminal-status result", "tracking the
  specific build instance returned from the trigger call"; section 5: "between attempts
  the process sleeps for an implementation-chosen interval", the timeout is "measured
  from the trigger call"; section 7: a trigger failure is "fatal at the point of
  occurrence".

  The server is what the client sees of it: the submission returns the handle of the
  build it created (\<open>None\<close> when the submission fails), and a build has a status at
  every time elapsed since the submission (\<open>None\<close> while it is queued or running).
  The poll interval is a parameter. The loop is defined for a positive interval; with
  another one the clock of the model would not advance, and the model reports the
  timeout.
\<close>

record 'b jenkins =
  invoke ::
    "string \<Rightarrow> string \<Rightarrow> string \<Rightarrow> string \<Rightarrow> string \<Rightarrow> string option
       \<Rightarrow> (string \<times> string) list \<Rightarrow> 'b option"
  status_at :: "'b \<Rightarrow> rat \<Rightarrow> string option"

datatype ci_error = Trigger_failed

definition terminal_statuses :: "string list" where
  "terminal_statuses =
     [STATUS_SUCCESS, STATUS_FAIL, STATUS_ERROR, STATUS_ABORTED, STATUS_REGRESSION]"

fun is_terminal :: "string option \<Rightarrow> bool" where
  "is_terminal None = False"
| "is_terminal (Some s) = (s \<in> set terminal_statuses)"

function poll_build :: "(rat \<Rightarrow> string option) \<Rightarrow> rat \<Rightarrow> rat \<Rightarrow> rat \<Rightarrow> build_result" where
  "poll_build status interval budget elapsed =
     (if budget < elapsed then Timed_out
      else if is_terminal (status elapsed) then Status (the (status elapsed))
      else if interval \<le> 0 then Timed_out
      else poll_build status interval budget (elapsed + interval))"
  by pat_completeness auto
termination
proof (relation "measure (\<lambda>(status, interval, budget, elapsed).
                   nat (\<lfloor>(budget - elapsed) / interval\<rfloor> + 1))")
  show "wf (measure (\<lambda>(status :: rat \<Rightarrow> string option, interval :: rat, budget :: rat, elapsed :: rat).
                   nat (\<lfloor>(budget - elapsed) / interval\<rfloor> + 1)))"
    by simp
next
  fix status :: "rat \<Rightarrow> string option" and interval budget elapsed :: rat
  assume a: "\<not> budget < elapsed" "\<not> interval \<le> 0"
  have "(budget - (elapsed + interval)) / interval = (budget - elapsed) / interval - 1"
    using a by (simp add: field_simps)
  moreover have "0 \<le> \<lfloor>(budget - elapsed) / interval\<rfloor>"
    using a by simp
  ultimately show "((status, interval, budget, elapsed + interval), (status, interval, budget, elapsed))
        \<in> measure (\<lambda>(status, interval, budget, elapsed).
                   nat (\<lfloor>(budget - elapsed) / interval\<rfloor> + 1))"
    by simp
qed

declare poll_build.simps [simp del]

definition trigger_build ::
    "rat \<Rightarrow> 'b jenkins \<Rightarrow> string \<Rightarrow> string \<Rightarrow> string \<Rightarrow> string \<Rightarrow> string \<Rightarrow> string option
       \<Rightarrow> (string \<times> string) list \<Rightarrow> rat \<Rightarrow> ci_error + build_result" where
  "trigger_build interval server base_url user base_token job_name job_token job_cause
       job_params budget =
     (case invoke server base_url user base_token job_name job_token job_cause job_params of
        None \<Rightarrow> Inl Trigger_failed
      | Some build \<Rightarrow> Inr (poll_build (status_at server build) interval budget 0))"

section \<open>Concrete runs\<close>

text \<open>
  A world with a few configuration files: \<^verbatim>\<open>env.yml\<close> names the bucket
  \<^verbatim>\<open>www.example.com\<close>, \<^verbatim>\<open>empty.yml\<close> is a mapping without the bucket key,
  \<^verbatim>\<open>blank.yml\<close> maps the key to the empty string, \<^verbatim>\<open>list.yml\<close> holds a sequence,
  \<^verbatim>\<open>broken.yml\<close> is not YAML, and any other path cannot be opened. The sync succeeds and
  the CDN knows no zone.
\<close>

definition example_config :: "string \<rightharpoonup> yaml" where
  "example_config = [''S3_BUCKET_NAME'' \<mapsto> YStr ''www.example.com'']"

definition example_world :: world where
  "example_world =
     \<lparr>read_config = (\<lambda>path.
          if path = ''env.yml'' then Loaded (Mapping example_config)
          else if path = ''empty.yml'' then Loaded (Mapping Map.empty)
          else if path = ''blank.yml'' then Loaded (Mapping [''S3_BUCKET_NAME'' \<mapsto> YStr ''''])
          else if path = ''list.yml'' then Loaded Not_mapping
          else if path = ''broken.yml'' then Parse_failed
          else Open_failed),
      run_sync = (\<lambda>command. 0),
      zones_get = (\<lambda>zone. Response []),
      purge_cache_post = (\<lambda>zone_id hosts. Response ())\<rparr>"

text \<open>
  A command line of the CI trigger with every required option and nothing else, the same
  without \<^verbatim>\<open>--job\<close> and without \<^verbatim>\<open>--user_name\<close>, an environment without variables, and
  the arguments click derives from the first.
\<close>

definition example_cli :: trigger_cli where
  "example_cli =
     \<lparr>opt_url = None, opt_user_name = Some ''deployer'', opt_user_token = Some ''user-token'',
      opt_job = Some ''test-project'', opt_token = Some ''job-token'', opt_cause = None,
      opt_param = [], opt_timeout = None, opt_expected_status = None\<rparr>"

definition cli_without_job :: trigger_cli where
  "cli_without_job = example_cli\<lparr>opt_job := None\<rparr>"

definition cli_without_user_name :: trigger_cli where
  "cli_without_user_name = example_cli\<lparr>opt_user_name := None\<rparr>"

definition no_environ :: "string \<rightharpoonup> string" where
  "no_environ = Map.empty"

definition example_args :: trigger_args where
  "example_args =
     \<lparr>url = ''https://test-jenkins.testeng.edx.org'', user_name = ''deployer'',
      user_token = ''user-token'', job = ''test-project'', token = ''job-token'', cause = None,
      param = [], timeout = 1800, expected_status = ''SUCCESS''\<rparr>"

text \<open>A \<^verbatim>\<open>trigger_build\<close> whose build succeeds.\<close>

definition build_succeeds ::
    "string \<Rightarrow> string \<Rightarrow> string \<Rightarrow> string \<Rightarrow> string \<Rightarrow> string option
       \<Rightarrow> (string \<times> string) list \<Rightarrow> rat \<Rightarrow> unit + build_result" where
  "build_succeeds base_url user base_token job_name job_token job_cause job_params budget =
     Inr (Status ''SUCCESS'')"

text \<open>
  Two servers with builds numbered from 1. On the first, every submission creates build
  1, which succeeds two minutes after the submission. On the second, build 1 never
  finishes. \<open>fails_early\<close> is the history of a build that has failed from the start.
\<close>

definition example_server :: "nat jenkins" where
  "example_server =
     \<lparr>invoke = (\<lambda>base_url user base_token job_name job_token job_cause job_params. Some 1),
      status_at = (\<lambda>build elapsed.
          if build = 1 \<and> 120 \<le> elapsed then Some ''SUCCESS'' else None)\<rparr>"

definition stuck_server :: "nat jenkins" where
  "stuck_server =
     \<lparr>invoke = (\<lambda>base_url user base_token job_name job_token job_cause job_params. Some 1),
      status_at = (\<lambda>build elapsed. None)\<rparr>"

definition fails_early :: "rat \<Rightarrow> string option" where
  "fails_early elapsed = Some ''FAIL''"

section \<open>Facts about the primitives\<close>

lemmas fail_defs = FAIL_def LOG_def helpers_fail_def helpers_log_def

lemma split_py_no_sep: "c \<notin> set w \<Longrightarrow> split_py c w = [w]"
  by (induction w) auto

lemma split_py_append_sep:
  "c \<notin> set w \<Longrightarrow> split_py c (w @ c # rest) = w # split_py c rest"
  by (induction w) auto

lemma split_py_nonempty: "split_py c s \<noteq> []"
  by (induction s) (auto split: list.splits)

text \<open>The pieces of a string hold no separator, and joining them gives the string back.\<close>

lemma split_py_pieces: "l \<in> set (split_py c s) \<Longrightarrow> c \<notin> set l"
  by (induction s arbitrary: l) (auto split: if_splits list.splits)

lemma join_split_py: "join_py [c] (split_py c s) = s"
proof (induction s)
  case Nil
  then show ?case by simp
next
  case (Cons x xs)
  obtain w ws where e: "split_py c xs = w # ws"
    using split_py_nonempty[of c xs] by (cases "split_py c xs") auto
  show ?case
  proof (cases "x = c")
    case True
    with e Cons show ?thesis by simp
  next
    case False
    with e Cons show ?thesis by (cases ws) auto
  qed
qed

text \<open>Splitting undoes joining, when no piece holds the separator.\<close>

lemma split_py_join:
  "ls \<noteq> [] \<Longrightarrow> \<forall>l\<in>set ls. c \<notin> set l \<Longrightarrow> split_py c (join_py [c] ls) = ls"
proof (induction ls)
  case Nil
  then show ?case by simp
next
  case (Cons w ws)
  show ?case
  proof (cases ws)
    case Nil
    with Cons.prems show ?thesis by (simp add: split_py_no_sep)
  next
    case (Cons v vs)
    with Cons.IH Cons.prems show ?thesis by (simp add: split_py_append_sep)
  qed
qed

lemma slice_last_two: "slice_from (- 2) (pre @ [a, b]) = [a, b]"
  by (simp add: slice_from_def)

lemma join_py_two_nonempty: "sep \<noteq> [] \<Longrightarrow> join_py sep (pre @ [a, b]) \<noteq> []"
proof (induction pre)
  case Nil
  then show ?case by simp
next
  case (Cons x xs)
  obtain v vs where "xs @ [a, b] = v # vs" by (cases "xs @ [a, b]") auto
  then show ?case using Cons by simp
qed

lemma zone_name_labels:
  assumes "\<forall>l\<in>set (pre @ [l1, l2]). CHR ''.'' \<notin> set l"
  shows "zone_name (join_py ''.'' (pre @ [l1, l2])) = l1 @ ''.'' @ l2"
proof -
  have "split_py CHR ''.'' (join_py ''.'' (pre @ [l1, l2])) = pre @ [l1, l2]"
    using assms by (intro split_py_join) auto
  then show ?thesis by (simp add: zone_name_def slice_last_two)
qed

lemma or_else_default:
  "or_else x (Some d) = Some (case x of None \<Rightarrow> d | Some v \<Rightarrow> v)"
  by (cases x) auto

lemma or_else_eq_None: "or_else x y = None \<longleftrightarrow> x = None \<and> y = None"
  by (cases x) auto

section \<open>The frontend publisher\<close>

text \<open>With its arguments given, a bucket configured and the sync successful, a run goes on to the purge block.\<close>

lemma deploy_reaches_sync:
  assumes "path \<noteq> []" "name \<noteq> []" "dir \<noteq> []"
    and "read_config w path = Loaded (Mapping m)"
    and "m ''S3_BUCKET_NAME'' = Some v" "truthy v"
    and "run_sync w (sync_command dir (bucket_uri v)) = 0"
  shows "frontend_deploy w (Some path) (Some name) (Some dir) p =
           purge_and_finish w name v p [Sync (sync_command dir (bucket_uri v))]"
  using assms by (simp add: frontend_deploy_def)

lemma purge_looks_up_zone:
  "List.map_filter looked_up (snd (purge_and_finish w name (YStr b) True [Sync cmd]))
     = [zone_name b]"
  by (auto simp: purge_and_finish_def Let_def fail_defs List.map_filter_simps
           split: cf_response.splits list.splits option.splits)

text \<open>
  C4. With the purge flag set, the zone lookup receives the last two dot-separated
  labels of the bucket name, joined by a dot: for a bucket name made of the labels
  \<open>pre\<close>, \<open>l1\<close> and \<open>l2\<close>, the zone name is \<open>l1.l2\<close>, and it is the one name a run
  that reaches the purge block passes to the lookup. A name without a dot has one label,
  which is the zone name.
\<close>

theorem zone_lookup_last_two_labels:
  assumes "\<forall>l\<in>set (pre @ [l1, l2]). CHR ''.'' \<notin> set l"
    and "path \<noteq> []" "name \<noteq> []" "dir \<noteq> []"
    and "read_config w path = Loaded (Mapping m)"
    and "m ''S3_BUCKET_NAME'' = Some (YStr (join_py ''.'' (pre @ [l1, l2])))"
    and "run_sync w (sync_command dir (bucket_uri (YStr (join_py ''.'' (pre @ [l1, l2]))))) = 0"
  shows "zone_name (join_py ''.'' (pre @ [l1, l2])) = l1 @ ''.'' @ l2
       \<and> List.map_filter looked_up
            (snd (frontend_deploy w (Some path) (Some name) (Some dir) True))
          = [l1 @ ''.'' @ l2]
       \<and> (CHR ''.'' \<notin> set single \<longrightarrow> zone_name single = single)"
proof -
  let ?b = "join_py ''.'' (pre @ [l1, l2])"
  have z: "zone_name ?b = l1 @ ''.'' @ l2"
    using assms(1) by (rule zone_name_labels)
  have "truthy (YStr ?b)"
    using join_py_two_nonempty[of "''.''" pre l1 l2] by simp
  then have "frontend_deploy w (Some path) (Some name) (Some dir) True
        = purge_and_finish w name (YStr ?b) True [Sync (sync_command dir (bucket_uri (YStr ?b)))]"
    using assms(2-7) by (intro deploy_reaches_sync[where m = m]) auto
  moreover have "CHR ''.'' \<notin> set single \<longrightarrow> zone_name single = single"
    by (simp add: zone_name_def split_py_no_sep slice_from_def)
  ultimately show ?thesis using z by (simp only: purge_looks_up_zone simp_thms)
qed

theorem zone_lookup_last_two_labels_witness:
  "zone_name ''www.example.com'' = ''example.com''
   \<and> List.map_filter looked_up
        (snd (frontend_deploy example_world (Some ''env.yml'') (Some ''app'') (Some ''build'') True))
      = [''example.com'']"
  using zone_lookup_last_two_labels[of "[''www'']" "''example''" "''com''" "''env.yml''" "''app''"
          "''build''" example_world example_config]
  by (simp add: example_world_def example_config_def)



text \<open>
  C6. When the configuration file loads and holds no bucket-name key, the process ends
  with status 1 and the run holds no sync and no CDN call; when the document is a
  mapping and the arguments are given, the run is the failure line for the missing
  bucket name and nothing else.
\<close>

theorem missing_bucket_key_fails_before_sync:
  assumes "read_config w path = Loaded doc"
    and "\<forall>m. doc = Mapping m \<longrightarrow> m ''S3_BUCKET_NAME'' = None"
  shows "exit_status (fst (frontend_deploy w (Some path) n d p)) = 1
       \<and> filter is_remote (snd (frontend_deploy w (Some path) n d p)) = []
       \<and> (path \<noteq> [] \<and> \<not> not_given n \<and> \<not> not_given d \<and> doc \<noteq> Not_mapping \<longrightarrow>
            frontend_deploy w (Some path) n d p =
              (Exit 1, [Log SCRIPT_SHORTNAME (''No S3 bucket name configured for '' @ the n @ ''.'')]))"
  using assms
  by (cases doc) (auto simp: frontend_deploy_def fail_defs)

theorem missing_bucket_key_fails_before_sync_witness:
  "exit_status (fst (frontend_deploy example_world (Some ''empty.yml'') (Some ''app'') (Some ''build'') True)) = 1
   \<and> filter is_remote
        (snd (frontend_deploy example_world (Some ''empty.yml'') (Some ''app'') (Some ''build'') True)) = []
   \<and> frontend_deploy example_world (Some ''empty.yml'') (Some ''app'') (Some ''build'') True
      = (Exit 1, [Log ''Deploy frontend'' ''No S3 bucket name configured for app.''])"
  using missing_bucket_key_fails_before_sync[of example_world "''empty.yml''"
          "Mapping Map.empty" "Some ''app''" "Some ''build''" True]
  by (simp add: example_world_def SCRIPT_SHORTNAME_def)

text \<open>
  C10. When the bucket-name key is present with a falsy value (null, false, zero, the
  empty string, an empty container), the run is the one of a missing key: exit code 1
  and the line "No S3 bucket name configured", with no sync; it equals the run on the
  same file with the key removed.
\<close>

theorem falsy_bucket_name_as_missing:
  assumes "path \<noteq> []" "name \<noteq> []" "dir \<noteq> []"
    and "read_config w path = Loaded (Mapping m)"
    and "m ''S3_BUCKET_NAME'' = Some v" "\<not> truthy v"
  shows "frontend_deploy w (Some path) (Some name) (Some dir) p =
           (Exit 1, [Log SCRIPT_SHORTNAME (''No S3 bucket name configured for '' @ name @ ''.'')])
       \<and> frontend_deploy w (Some path) (Some name) (Some dir) p =
           frontend_deploy
             (w\<lparr>read_config :=
                  (read_config w)(path := Loaded (Mapping (m(''S3_BUCKET_NAME'' := None))))\<rparr>)
             (Some path) (Some name) (Some dir) p"
  using assms
  by (auto simp: frontend_deploy_def fail_defs)

theorem falsy_bucket_name_as_missing_witness:
  "frontend_deploy example_world (Some ''blank.yml'') (Some ''app'') (Some ''build'') False
     = (Exit 1, [Log ''Deploy frontend'' ''No S3 bucket name configured for app.''])"
  using falsy_bucket_name_as_missing[of "''blank.yml''" "''app''" "''build''" example_world
          "[''S3_BUCKET_NAME'' \<mapsto> YStr '''']" "YStr ''''" False]
  by (simp add: example_world_def SCRIPT_SHORTNAME_def)

text \<open>
  C8. A run without the purge flag whose sync command exits with 0 returns, so that the
  process exits with 0, and holds no CDN event: the client is not built, no zone is
  looked up and nothing is purged.
\<close>

theorem sync_ok_without_purge:
  assumes "Sync cmd \<in> set (snd (frontend_deploy w f n d False))"
    and "run_sync w cmd = 0"
  shows "fst (frontend_deploy w f n d False) = Returned
         \<and> exit_status (fst (frontend_deploy w f n d False)) = 0
         \<and> filter is_cdn (snd (frontend_deploy w f n d False)) = []"
  using assms
  by (auto simp: frontend_deploy_def purge_and_finish_def fail_defs Let_def
           split: if_splits config_read.splits document.splits option.splits)

theorem sync_ok_without_purge_witness:
  "fst (frontend_deploy example_world (Some ''env.yml'') (Some ''app'') (Some ''build'') False) = Returned
   \<and> exit_status (fst (frontend_deploy example_world (Some ''env.yml'') (Some ''app'') (Some ''build'') False)) = 0
   \<and> filter is_cdn
        (snd (frontend_deploy example_world (Some ''env.yml'') (Some ''app'') (Some ''build'') False)) = []"
proof -
  have "Sync ''aws s3 sync build s3://www.example.com --delete''
          \<in> set (snd (frontend_deploy example_world (Some ''env.yml'') (Some ''app'') (Some ''build'') False))"
    by (simp add: frontend_deploy_def purge_and_finish_def fail_defs example_world_def
          example_config_def sync_command_def bucket_uri_def)
  moreover have "run_sync example_world ''aws s3 sync build s3://www.example.com --delete'' = 0"
    by (simp add: example_world_def)
  ultimately show ?thesis by (rule sync_ok_without_purge)
qed

text \<open>
  C7, as the code has it. With the arguments given, a configuration file that cannot be
  opened ends the run with exit code 1 and one log line, which carries the script's
  label and the path, before any remote call. A file that opens and is not YAML is not
  handled by the script: the parser's exception leaves the command, before any remote
  call and without a log line of the script.
\<close>

theorem config_read_failure:
  assumes "path \<noteq> []" "name \<noteq> []" "dir \<noteq> []"
  shows "(read_config w path = Open_failed \<longrightarrow>
            frontend_deploy w (Some path) (Some name) (Some dir) p =
              (Exit 1, [Log SCRIPT_SHORTNAME
                          (''Environment config file '' @ path @ '' could not be opened.'')]))
       \<and> (read_config w path = Parse_failed \<longrightarrow>
            frontend_deploy w (Some path) (Some name) (Some dir) p = (Uncaught YAMLError, []))"
  using assms
  by (auto simp: frontend_deploy_def fail_defs)

theorem config_read_failure_witness:
  "frontend_deploy example_world (Some ''missing.yml'') (Some ''app'') (Some ''build'') True
     = (Exit 1, [Log ''Deploy frontend'' ''Environment config file missing.yml could not be opened.''])
   \<and> exit_status (fst (frontend_deploy example_world (Some ''broken.yml'') (Some ''app'')
                          (Some ''build'') True)) = 1"
  using config_read_failure[of "''missing.yml''" "''app''" "''build''" example_world True]
    config_read_failure[of "''broken.yml''" "''app''" "''build''" example_world True]
  by (simp add: example_world_def SCRIPT_SHORTNAME_def)

text \<open>
  C7 as stated fails on a malformed file: the run on \<^verbatim>\<open>broken.yml\<close> ends with the
  parser's exception and has written no log line.
\<close>

theorem malformed_config_counterexample:
  "frontend_deploy example_world (Some ''broken.yml'') (Some ''app'') (Some ''build'') False
     = (Uncaught YAMLError, [])"
  by (simp add: frontend_deploy_def example_world_def)

section \<open>The CI trigger\<close>



text \<open>
  C3, as the code has it. The publisher, called without its configuration file, its
  application name or its dist path, ends with exit code 1 after one log line and no
  remote call. The CI trigger, called without a user name, a user token, a job or a job
  token (on the command line and in the environment), ends in click's usage error, with
  exit status 2, and the command function is not called; its URL has a default and is
  never missing.
\<close>

theorem missing_required_argument:
  "(not_given f \<or> not_given n \<or> not_given d \<longrightarrow>
      frontend_deploy w f n d p =
        (Exit 1, [Log SCRIPT_SHORTNAME
                    (if not_given f then ''Environment config file was not specified.''
                     else if not_given n then ''Frontend application name was not specified.''
                     else ''Frontend application dist path was not specified.'')]))
   \<and> (opt_user_name c = None
        \<or> (opt_user_token c = None \<and> environ ''JENKINS_USER_TOKEN'' = None)
        \<or> opt_job c = None
        \<or> (opt_token c = None \<and> environ ''JENKINS_JOB_TOKEN'' = None) \<longrightarrow>
      trigger_main tb c environ = Usage_exit 2)
   \<and> parse_trigger_cli c environ \<noteq> Usage_error ''url''"
  by (auto simp: frontend_deploy_def fail_defs trigger_main_def parse_trigger_cli_def Let_def
        click_usage_exit_code_def or_else_default or_else_eq_None split: option.splits)

theorem missing_required_argument_witness:
  "frontend_deploy example_world (Some ''env.yml'') None (Some ''build'') True
     = (Exit 1, [Log ''Deploy frontend'' ''Frontend application name was not specified.''])
   \<and> trigger_main build_succeeds cli_without_user_name no_environ = Usage_exit 2"
  using missing_required_argument[of "Some ''env.yml''" None "Some ''build''" example_world True
          cli_without_user_name no_environ build_succeeds]
  by (simp add: cli_without_user_name_def example_cli_def SCRIPT_SHORTNAME_def)

text \<open>
  C3 as stated fails on the CI trigger: without \<^verbatim>\<open>--job\<close> the process exits with
  status 2, not 1.
\<close>

theorem missing_job_counterexample:
  "trigger_main build_succeeds cli_without_job no_environ = Usage_exit 2
   \<and> trigger_main build_succeeds cli_without_job no_environ \<noteq> Usage_exit 1"
  by (simp add: trigger_main_def parse_trigger_cli_def Let_def cli_without_job_def example_cli_def
        no_environ_def click_usage_exit_code_def)

section \<open>Triggering and polling\<close>

text \<open>A build that has no terminal status at any time within the budget times out.\<close>

lemma poll_build_never_terminal:
  "(\<And>t. elapsed \<le> t \<Longrightarrow> t \<le> budget \<Longrightarrow> \<not> is_terminal (status t))
     \<Longrightarrow> poll_build status interval budget elapsed = Timed_out"
proof (induction status interval budget elapsed rule: poll_build.induct)
  case (1 status interval budget elapsed)
  show ?case
  proof (cases "budget < elapsed")
    case True
    then show ?thesis by (simp add: poll_build.simps[of status interval budget elapsed])
  next
    case False
    then have nt: "\<not> is_terminal (status elapsed)" using "1.prems" by simp
    show ?thesis
    proof (cases "interval \<le> 0")
      case True
      with False nt show ?thesis
        by (simp add: poll_build.simps[of status interval budget elapsed])
    next
      case pos: False
      have "poll_build status interval budget (elapsed + interval) = Timed_out"
        using False nt pos "1.prems" by (intro "1.IH") auto
      with False nt pos show ?thesis
        by (simp add: poll_build.simps[of status interval budget elapsed])
    qed
  qed
qed

text \<open>A status that the loop returns is a terminal status the build had within the budget.\<close>

lemma poll_build_status:
  "poll_build status interval budget elapsed = Status s
     \<Longrightarrow> \<exists>t. elapsed \<le> t \<and> t \<le> budget \<and> status t = Some s \<and> s \<in> set terminal_statuses"
proof (induction status interval budget elapsed rule: poll_build.induct)
  case (1 status interval budget elapsed)
  show ?case
  proof (cases "is_terminal (status elapsed)")
    case True
    then obtain s' where s': "status elapsed = Some s'" "s' \<in> set terminal_statuses"
      by (cases "status elapsed") auto
    with "1.prems" True have "\<not> budget < elapsed" "s' = s"
      by (auto simp: poll_build.simps[of status interval budget elapsed] split: if_splits)
    with s' show ?thesis by (intro exI[of _ elapsed]) auto
  next
    case False
    with "1.prems" have c: "\<not> budget < elapsed" "\<not> interval \<le> 0"
      and r: "poll_build status interval budget (elapsed + interval) = Status s"
      by (auto simp: poll_build.simps[of status interval budget elapsed] split: if_splits)
    from "1.IH"[OF c(1) False c(2) r] obtain t where
      "elapsed + interval \<le> t" "t \<le> budget" "status t = Some s" "s \<in> set terminal_statuses"
      by blast
    with c show ?thesis by (intro exI[of _ t]) auto
  qed
qed

text \<open>
  C2. When the build that the submission created has no terminal status at any time
  within the budget, \<^verbatim>\<open>trigger_build\<close> returns the timeout, which is no status; the
  comparison with any expected status is false, and so is the outcome of the script. The
  budget is 1800 seconds when \<^verbatim>\<open>--timeout\<close> is not given.
\<close>

theorem timeout_is_no_status:
  assumes "parse_trigger_cli c environ = Parsed a"
    and "invoke server (url a) (user_name a) (user_token a) (job a) (token a) (cause a) (param a)
           = Some b"
    and "\<forall>t. 0 \<le> t \<and> t \<le> timeout a \<longrightarrow> \<not> is_terminal (status_at server b t)"
  shows "trigger_build interval server (url a) (user_name a) (user_token a) (job a) (token a)
             (cause a) (param a) (timeout a) = Inr Timed_out
       \<and> (\<forall>e. Timed_out \<noteq> Status e)
       \<and> (\<forall>e. trigger (trigger_build interval server) (url a) (user_name a) (user_token a)
                 (job a) (token a) (cause a) (param a) (timeout a) e = Inr False)
       \<and> trigger_main (trigger_build interval server) c environ = Called (Inr False)
       \<and> (opt_timeout c = None \<longrightarrow> timeout a = 1800)"
proof -
  have p: "poll_build (status_at server b) interval (timeout a) 0 = Timed_out"
    using assms(3) by (intro poll_build_never_terminal) auto
  then have tb: "trigger_build interval server (url a) (user_name a) (user_token a) (job a)
      (token a) (cause a) (param a) (timeout a) = Inr Timed_out"
    using assms(2) by (simp add: trigger_build_def)
  have "trigger_main (trigger_build interval server) c environ = Called (Inr False)"
    using assms(1) tb by (simp add: trigger_main_def trigger_def)
  moreover have "opt_timeout c = None \<longrightarrow> timeout a = 1800"
    using assms(1)
    by (auto simp: parse_trigger_cli_def Let_def or_else_default or_else_eq_None
             split: option.splits if_splits)
  ultimately show ?thesis using tb by (simp add: trigger_def)
qed

theorem timeout_is_no_status_witness:
  "trigger_build 60 stuck_server ''https://test-jenkins.testeng.edx.org'' ''deployer''
       ''user-token'' ''test-project'' ''job-token'' None [] 1800 = Inr Timed_out
   \<and> trigger_main (trigger_build 60 stuck_server) example_cli no_environ = Called (Inr False)"
proof -
  have p: "parse_trigger_cli example_cli no_environ = Parsed example_args"
    by (simp add: parse_trigger_cli_def Let_def example_cli_def no_environ_def example_args_def
          STATUS_SUCCESS_def expected_status_choices_def)
  have i: "invoke stuck_server (url example_args) (user_name example_args)
             (user_token example_args) (job example_args) (token example_args)
             (cause example_args) (param example_args) = Some 1"
    by (simp add: stuck_server_def)
  have n: "\<forall>t. 0 \<le> t \<and> t \<le> timeout example_args \<longrightarrow> \<not> is_terminal (status_at stuck_server 1 t)"
    by (simp add: stuck_server_def)
  show ?thesis
    using timeout_is_no_status[OF p i n, of 60] by (simp add: example_args_def)
qed

text \<open>
  C9. The result of \<^verbatim>\<open>trigger_build\<close> is that of the build which the submission
  returned: it does not change when any other build, one of the same job included, gets
  another history, and a status it reports is a terminal status that this build had
  within the budget.
\<close>

theorem poller_tracks_triggered_build:
  assumes "invoke server u n t j k c p = Some b"
  shows "(\<forall>other history. other \<noteq> b \<longrightarrow>
            trigger_build interval (server\<lparr>status_at := (status_at server)(other := history)\<rparr>)
                u n t j k c p budget
              = trigger_build interval server u n t j k c p budget)
       \<and> (\<forall>s. trigger_build interval server u n t j k c p budget = Inr (Status s) \<longrightarrow>
            (\<exists>tm. 0 \<le> tm \<and> tm \<le> budget \<and> status_at server b tm = Some s
                  \<and> s \<in> set terminal_statuses))"
  using assms poll_build_status[of "status_at server b" interval budget 0]
  by (auto simp: trigger_build_def)

theorem poller_tracks_triggered_build_witness:
  "trigger_build 60 (example_server\<lparr>status_at := (status_at example_server)(2 := fails_early)\<rparr>)
       ''https://test-jenkins.testeng.edx.org'' ''deployer'' ''user-token'' ''test-project''
       ''job-token'' None [] 1800
     = trigger_build 60 example_server
         ''https://test-jenkins.testeng.edx.org'' ''deployer'' ''user-token'' ''test-project''
         ''job-token'' None [] 1800
   \<and> trigger_build 60 example_server
         ''https://test-jenkins.testeng.edx.org'' ''deployer'' ''user-token'' ''test-project''
         ''job-token'' None [] 1800 = Inr (Status ''SUCCESS'')"
proof -
  have i: "invoke example_server ''https://test-jenkins.testeng.edx.org'' ''deployer''
             ''user-token'' ''test-project'' ''job-token'' None [] = Some 1"
    by (simp add: example_server_def)
  have r: "trigger_build 60 example_server
         ''https://test-jenkins.testeng.edx.org'' ''deployer'' ''user-token'' ''test-project''
         ''job-token'' None [] 1800 = Inr (Status ''SUCCESS'')"
    by (simp add: trigger_build_def poll_build.simps example_server_def terminal_statuses_def
          STATUS_SUCCESS_def)
  have "(2::nat) \<noteq> 1" by simp
  with poller_tracks_triggered_build[OF i, of 60 1800] r show ?thesis by blast
qed

end
